theory Spec2Isabelle
  imports Main "HOL-Library.AList"
begin

section \<open>Python values, attribute access and errors\<close>

text \<open>
  The values that flow through the two drivers: \<^verbatim>\<open>None\<close>, booleans, integers, strings,
  lists, dictionaries (insertion-ordered association lists, as Python iterates them) and
  objects. An object is its class name and its attributes.
\<close>

datatype pyval =
    VNone
  | VBool bool
  | VInt int
  | VStr string
  | VList "pyval list"
  | VDict "(string \<times> pyval) list"
  | VObj string "(string \<times> pyval) list"

datatype error =
    KeyError string
  | AttributeError string
  | TypeError string
  | ReaderError string
  | ModelerError string

text \<open>
  \<^verbatim>\<open>obj.name\<close> raises AttributeError when the attribute does not exist.
  \<^verbatim>\<open>setattr(obj, name, value)\<close> on an instance stores the value under the name, whether
  or not the attribute existed before; values that are not instances of a user class
  (\<^verbatim>\<open>None\<close>, numbers, strings, lists, dictionaries) refuse it with AttributeError.
\<close>

fun getattr :: "pyval \<Rightarrow> string \<Rightarrow> error + pyval" where
  "getattr (VObj cls attrs) name =
     (case map_of attrs name of None \<Rightarrow> Inl (AttributeError name) | Some v \<Rightarrow> Inr v)"
| "getattr _ name = Inl (AttributeError name)"

fun setattr :: "pyval \<Rightarrow> string \<Rightarrow> pyval \<Rightarrow> error + pyval" where
  "setattr (VObj cls attrs) name v = Inr (VObj cls (AList.update name v attrs))"
| "setattr _ name v = Inl (AttributeError name)"

fun class_of :: "pyval \<Rightarrow> string option" where
  "class_of (VObj cls attrs) = Some cls"
| "class_of _ = None"

text \<open>\<^verbatim>\<open>str.upper\<close> on ASCII text.\<close>

definition upper_char :: "char \<Rightarrow> char" where
  "upper_char c =
     (let n = (of_char c :: nat) in if 97 \<le> n \<and> n \<le> 122 then char_of (n - 32) else c)"

definition upper :: "string \<Rightarrow> string" where
  "upper s = map upper_char s"

text \<open>
  The file readers of \<^verbatim>\<open>extrap.fileio\<close> are not part of the two drivers: they are
  parameters. A reader returns an experiment or raises. The progress bar that the batch
  driver hands to a reader carries no data into it and is left out.
\<close>

record 'e fileio =
  read_cube_file :: "string \<Rightarrow> string \<Rightarrow> error + 'e"
  read_text_file :: "string \<Rightarrow> error + 'e"
  read_talpas_file :: "string \<Rightarrow> error + 'e"
  read_json_file :: "string \<Rightarrow> error + 'e"
  read_extrap3_experiment :: "string \<Rightarrow> error + 'e"

section \<open>The batch driver (extrapcmd.py)\<close>

subsection \<open>The parsed arguments\<close>

text \<open>
  The namespace that \<^verbatim>\<open>parser.parse_args\<close> returns, one field per \<^verbatim>\<open>dest\<close>
  (\<open>text_flag\<close> is the destination \<^verbatim>\<open>text\<close>). \<open>modeler_options\<close> is the dictionary built
  for \<^verbatim>\<open>--options\<close>, \<^verbatim>\<open>{}\<close> by default.
\<close>

record arguments =
  log_level :: string
  cube :: bool
  text_flag :: bool
  talpas :: bool
  json :: bool
  extrap3 :: bool
  modeler :: string
  modeler_options :: "(string \<times> pyval) list"
  scaling_type :: string
  median :: bool
  out :: "string option"
  print_type :: string
  path :: "string option"

datatype path_kind = Missing | Directory | RegularFile | Special

text \<open>
  What the driver uses and does not define: the file system
  (\<^verbatim>\<open>os.path.isdir\<close>, \<^verbatim>\<open>os.path.isfile\<close>), the names of the registered modelers, the two
  reserved option keys, the modeler instance that \<^verbatim>\<open>ModelGenerator(...)\<close> creates, the
  test \<^verbatim>\<open>isinstance(modeler, MultiParameterModeler)\<close>, the registry
  \<^verbatim>\<open>single_parameter.all_modelers\<close> (name to a fresh instance), \<^verbatim>\<open>model_all\<close> and
  \<^verbatim>\<open>format_output\<close>.
\<close>

record 'e batch_env = "'e fileio" +
  path_kind_of :: "string \<Rightarrow> path_kind"
  modelers_list :: "string list"
  SINGLE_PARAMETER_MODELER_KEY :: string
  SINGLE_PARAMETER_OPTIONS_KEY :: string
  generator_modeler :: "'e \<Rightarrow> string \<Rightarrow> bool \<Rightarrow> error + pyval"
  is_multi_parameter :: "pyval \<Rightarrow> bool"
  all_modelers :: "string \<Rightarrow> pyval option"
  model_all :: "'e \<Rightarrow> pyval \<Rightarrow> bool \<Rightarrow> error + 'e"
  format_output :: "'e \<Rightarrow> string \<Rightarrow> string"

definition isdir :: "'e batch_env \<Rightarrow> string \<Rightarrow> bool" where
  "isdir env p = (path_kind_of env p = Directory)"

definition isfile :: "'e batch_env \<Rightarrow> string \<Rightarrow> bool" where
  "isfile env p = (path_kind_of env p = RegularFile)"

subsection \<open>Effects\<close>

text \<open>
  A run of the driver is the sequence of its observable calls and how it ends: a normal
  return, \<^verbatim>\<open>sys.exit(n)\<close>, or an exception that nothing catches.
\<close>

datatype target = OnModeler | OnSingleParameterModeler

datatype batch_event =
    LogError string
  | CallReadCubeFile string string
  | CallReadTextFile string
  | CallReadTalpasFile string
  | CallReadJsonFile string
  | CallReadExtrap3Experiment string
  | ExperimentDebug
  | NewModelGenerator string bool
  | AssignSingleParameterModeler pyval
  | SetAttr target string pyval
  | ModelAll pyval
  | PrintText string
  | SaveOutput string string

datatype stop = SystemExit int | Raises error

type_synonym 'a run = "batch_event list \<times> (stop + 'a)"

definition and_then :: "'a run \<Rightarrow> ('a \<Rightarrow> 'b run) \<Rightarrow> 'b run" where
  "and_then m f =
     (case m of
        (tr, Inl s) \<Rightarrow> (tr, Inl s)
      | (tr, Inr a) \<Rightarrow> (case f a of (tr', r) \<Rightarrow> (tr @ tr', r)))"

definition raise :: "error \<Rightarrow> 'a run" where
  "raise e = ([], Inl (Raises e))"

definition call :: "batch_event \<Rightarrow> error + 'a \<Rightarrow> 'a run" where
  "call ev r = ([ev], case r of Inl e \<Rightarrow> Inl (Raises e) | Inr a \<Rightarrow> Inr a)"

definition error_exit :: "string \<Rightarrow> 'a run" where
  "error_exit msg = ([LogError msg], Inl (SystemExit 1))"

text \<open>The call that writes the report to the path given with \<^verbatim>\<open>--out\<close>.\<close>

fun is_save_output :: "batch_event \<Rightarrow> bool" where
  "is_save_output (SaveOutput txt p) = True"
| "is_save_output _ = False"

subsection \<open>Loading the file (lines 113 to 140)\<close>

definition load :: "'e batch_env \<Rightarrow> arguments \<Rightarrow> string \<Rightarrow> 'e run" where
  "load env args p =
     (if cube args then
        (if isdir env p
         then call (CallReadCubeFile p (scaling_type args)) (read_cube_file env p (scaling_type args))
         else error_exit ''The given path is not valid. It must point to a directory.'')
      else if isfile env p then
        (if text_flag args then call (CallReadTextFile p) (read_text_file env p)
         else if talpas args then call (CallReadTalpasFile p) (read_talpas_file env p)
         else if json args then call (CallReadJsonFile p) (read_json_file env p)
         else if extrap3 args then call (CallReadExtrap3Experiment p) (read_extrap3_experiment env p)
         else error_exit ''The file format specifier is missing.'')
      else error_exit ''The given file path is not valid.'')"

subsection \<open>Applying the modeler options (lines 149 to 164)\<close>

text \<open>
  Both loops have the same body:
  \<^verbatim>\<open>for name, value in d.items(): if value is not None: setattr(obj, name, value)\<close>.
  The event \<open>SetAttr\<close> records each assignment that the loop performs.
\<close>

fun apply_options :: "target \<Rightarrow> pyval \<Rightarrow> (string \<times> pyval) list \<Rightarrow> pyval run" where
  "apply_options t obj [] = ([], Inr obj)"
| "apply_options t obj ((name, v) # rest) =
     (if v \<noteq> VNone then
        (case setattr obj name v of
           Inl e \<Rightarrow> ([], Inl (Raises e))
         | Inr obj' \<Rightarrow>
             (case apply_options t obj' rest of (tr, r) \<Rightarrow> (SetAttr t name v # tr, r)))
      else apply_options t obj rest)"

text \<open>\<^verbatim>\<open>single_parameter.all_modelers[single_modeler]()\<close>.\<close>

fun new_single_parameter_modeler :: "'e batch_env \<Rightarrow> pyval \<Rightarrow> error + pyval" where
  "new_single_parameter_modeler env (VStr name) =
     (case all_modelers env name of None \<Rightarrow> Inl (KeyError name) | Some inst \<Rightarrow> Inr inst)"
| "new_single_parameter_modeler env (VList xs) = Inl (TypeError ''unhashable type'')"
| "new_single_parameter_modeler env (VDict kvs) = Inl (TypeError ''unhashable type'')"
| "new_single_parameter_modeler env _ = Inl (KeyError ''single_modeler'')"

text \<open>Lines 153 to 155.\<close>

definition set_single_parameter_modeler ::
  "'e batch_env \<Rightarrow> pyval \<Rightarrow> (string \<times> pyval) list \<Rightarrow> pyval run" where
  "set_single_parameter_modeler env m opts =
     (case map_of opts (SINGLE_PARAMETER_MODELER_KEY env) of
        None \<Rightarrow> raise (KeyError (SINGLE_PARAMETER_MODELER_KEY env))
      | Some single_modeler \<Rightarrow>
          (if single_modeler \<noteq> VNone then
             (case new_single_parameter_modeler env single_modeler of
                Inl e \<Rightarrow> raise e
              | Inr inst \<Rightarrow>
                  call (AssignSingleParameterModeler inst)
                       (setattr m ''single_parameter_modeler'' inst))
           else ([], Inr m)))"

text \<open>
  Lines 157 to 160. The loop assigns on the object that \<^verbatim>\<open>modeler.single_parameter_modeler\<close>
  refers to; with values instead of references the changed object is stored back.
\<close>

definition apply_single_parameter_options ::
  "'e batch_env \<Rightarrow> pyval \<Rightarrow> (string \<times> pyval) list \<Rightarrow> pyval run" where
  "apply_single_parameter_options env m opts =
     (case getattr m ''single_parameter_modeler'' of
        Inl e \<Rightarrow> raise e
      | Inr sub \<Rightarrow>
          (if sub \<noteq> VNone then
             (case map_of opts (SINGLE_PARAMETER_OPTIONS_KEY env) of
                None \<Rightarrow> raise (KeyError (SINGLE_PARAMETER_OPTIONS_KEY env))
              | Some (VDict nested) \<Rightarrow>
                  and_then (apply_options OnSingleParameterModeler sub nested)
                    (\<lambda>sub'. case setattr m ''single_parameter_modeler'' sub' of
                               Inl e \<Rightarrow> raise e
                             | Inr m' \<Rightarrow> ([], Inr m'))
              | Some _ \<Rightarrow> raise (AttributeError ''items''))
           else ([], Inr m)))"

definition configure :: "'e batch_env \<Rightarrow> pyval \<Rightarrow> (string \<times> pyval) list \<Rightarrow> pyval run" where
  "configure env m opts =
     and_then
       (if is_multi_parameter env m \<and> opts \<noteq> []
        then and_then (set_single_parameter_modeler env m opts)
                      (\<lambda>m1. apply_single_parameter_options env m1 opts)
        else ([], Inr m))
       (\<lambda>m2. apply_options OnModeler m2 opts)"

subsection \<open>The driver after argument parsing (lines 99 to 182)\<close>

definition report :: "'e batch_env \<Rightarrow> arguments \<Rightarrow> 'e \<Rightarrow> unit run" where
  "report env args experiment =
     (let txt = format_output env experiment (upper (print_type args)) in
      (PrintText txt # (case out args of None \<Rightarrow> [] | Some print_path \<Rightarrow> [SaveOutput txt print_path]),
       Inr ()))"

definition run_models :: "'e batch_env \<Rightarrow> arguments \<Rightarrow> 'e \<Rightarrow> unit run" where
  "run_models env args experiment =
     and_then (call (NewModelGenerator (modeler args) (median args))
                    (generator_modeler env experiment (modeler args) (median args)))
       (\<lambda>m. and_then (configure env m (modeler_options args))
         (\<lambda>m'. and_then (call (ModelAll m') (model_all env experiment m' (median args)))
           (\<lambda>modelled. report env args modelled)))"

definition run_batch :: "'e batch_env \<Rightarrow> arguments \<Rightarrow> unit run" where
  "run_batch env args =
     (case path args of
        None \<Rightarrow> error_exit ''No file path given to load files.''
      | Some p \<Rightarrow>
          and_then (load env args p)
            (\<lambda>experiment. and_then ([ExperimentDebug], Inr ())
               (\<lambda>_. run_models env args experiment)))"

subsection \<open>Argument parsing (lines 37 to 76)\<close>

text \<open>
  The command line as the sequence of arguments that \<^verbatim>\<open>argparse\<close> recognises, in the
  order given. The five format selectors are \<^verbatim>\<open>store_true\<close> flags of one group created
  with \<^verbatim>\<open>add_mutually_exclusive_group(required=True)\<close>.
\<close>

datatype selector = Cube | Text | Talpas | Json | Extrap3

datatype cli_arg =
    Log string
  | Version
  | HelpOptions string
  | Select selector
  | Modeler string
  | Options "(string \<times> pyval) list"
  | Scaling string
  | Median
  | Out string
  | Print string
  | FilePath string

definition defaults :: arguments where
  "defaults =
     \<lparr>log_level = ''WARNING'', cube = False, text_flag = False, talpas = False, json = False,
      extrap3 = False, modeler = ''Default'', modeler_options = [], scaling_type = ''weak'',
      median = False, out = None, print_type = ''all'', path = None\<rparr>"

fun store_true :: "selector \<Rightarrow> arguments \<Rightarrow> arguments" where
  "store_true Cube ns = ns\<lparr>cube := True\<rparr>"
| "store_true Text ns = ns\<lparr>text_flag := True\<rparr>"
| "store_true Talpas ns = ns\<lparr>talpas := True\<rparr>"
| "store_true Json ns = ns\<lparr>json := True\<rparr>"
| "store_true Extrap3 ns = ns\<lparr>extrap3 := True\<rparr>"

fun flag :: "selector \<Rightarrow> arguments \<Rightarrow> bool" where
  "flag Cube ns = cube ns"
| "flag Text ns = text_flag ns"
| "flag Talpas ns = talpas ns"
| "flag Json ns = json ns"
| "flag Extrap3 ns = extrap3 ns"

text \<open>
  \<^verbatim>\<open>--options\<close> is handled by \<^verbatim>\<open>ModelerOptionsAction\<close>, a class of
  \<^verbatim>\<open>extrap.util.options_parser\<close> that is not among the sources: \<open>Options kvs\<close> is an
  occurrence of \<^verbatim>\<open>--options\<close> that this action accepts, and \<open>kvs\<close> is the dictionary it
  stores in the namespace. The action runs when the occurrence is read, so what it can
  know of the modeler is the \<^verbatim>\<open>--modeler\<close> read before it.

  The parser's state: the namespace filled so far and the members of the group that
  have been seen. \<^verbatim>\<open>argparse\<close> refuses a member of a mutually exclusive group when another
  member has been seen (a repeated flag is accepted), an argument outside its
  \<^verbatim>\<open>choices\<close> and a second positional; every such error ends the process with status 2.
  \<^verbatim>\<open>--version\<close> and \<^verbatim>\<open>--help-options\<close> print and end it with status 0.
\<close>

record parser_state =
  namespace :: arguments
  seen :: "selector list"

fun take_action :: "'e batch_env \<Rightarrow> cli_arg \<Rightarrow> parser_state \<Rightarrow> stop + parser_state" where
  "take_action env (Log s) st =
     (if upper s \<in> set [''DEBUG'', ''INFO'', ''WARNING'', ''ERROR'', ''CRITICAL'']
      then Inr (st\<lparr>namespace := (namespace st)\<lparr>log_level := upper s\<rparr>\<rparr>)
      else Inl (SystemExit 2))"
| "take_action env Version st = Inl (SystemExit 0)"
| "take_action env (HelpOptions name) st =
     (if name \<in> set (modelers_list env) then Inl (SystemExit 0) else Inl (SystemExit 2))"
| "take_action env (Select s) st =
     (if list_ex (\<lambda>s'. s' \<noteq> s) (seen st) then Inl (SystemExit 2)
      else Inr (st\<lparr>namespace := store_true s (namespace st), seen := s # seen st\<rparr>))"
| "take_action env (Modeler name) st =
     (if name \<in> set (modelers_list env)
      then Inr (st\<lparr>namespace := (namespace st)\<lparr>modeler := name\<rparr>\<rparr>)
      else Inl (SystemExit 2))"
| "take_action env (Options kvs) st =
     Inr (st\<lparr>namespace := (namespace st)\<lparr>modeler_options := kvs\<rparr>\<rparr>)"
| "take_action env (Scaling s) st =
     (if s \<in> set [''weak'', ''strong'']
      then Inr (st\<lparr>namespace := (namespace st)\<lparr>scaling_type := s\<rparr>\<rparr>)
      else Inl (SystemExit 2))"
| "take_action env Median st = Inr (st\<lparr>namespace := (namespace st)\<lparr>median := True\<rparr>\<rparr>)"
| "take_action env (Out p) st = Inr (st\<lparr>namespace := (namespace st)\<lparr>out := Some p\<rparr>\<rparr>)"
| "take_action env (Print s) st =
     (if s \<in> set [''all'', ''callpaths'', ''metrics'', ''parameters'', ''functions'']
      then Inr (st\<lparr>namespace := (namespace st)\<lparr>print_type := s\<rparr>\<rparr>)
      else Inl (SystemExit 2))"
| "take_action env (FilePath p) st =
     (if path (namespace st) = None
      then Inr (st\<lparr>namespace := (namespace st)\<lparr>path := Some p\<rparr>\<rparr>)
      else Inl (SystemExit 2))"

fun consume :: "'e batch_env \<Rightarrow> cli_arg list \<Rightarrow> parser_state \<Rightarrow> stop + parser_state" where
  "consume env [] st = Inr st"
| "consume env (a # rest) st =
     (case take_action env a st of Inl s \<Rightarrow> Inl s | Inr st' \<Rightarrow> consume env rest st')"

text \<open>
  After the last argument the required positional and the required group are checked.
\<close>

definition parse_args :: "'e batch_env \<Rightarrow> cli_arg list \<Rightarrow> stop + arguments" where
  "parse_args env argv =
     (case consume env argv \<lparr>namespace = defaults, seen = []\<rparr> of
        Inl s \<Rightarrow> Inl s
      | Inr st \<Rightarrow>
          (if path (namespace st) = None then Inl (SystemExit 2)
           else if seen st = [] then Inl (SystemExit 2)
           else Inr (namespace st)))"

subsection \<open>The whole driver\<close>


section \<open>The interactive driver (extrapgui.py)\<close>

subsection \<open>The uncaught-exception handler (lines 83 to 101)\<close>

text \<open>
  \<^verbatim>\<open>_exception_handler(type, value, traceback_)\<close> is a closure of \<^verbatim>\<open>main\<close>. What it reads
  of its arguments is recorded here: whether the exception value has an attribute
  \<^verbatim>\<open>NAME\<close>, whether its type is a subclass of \<^verbatim>\<open>RecoverableError\<close>, its text
  \<^verbatim>\<open>str(value)\<close> and the formatted lines of its traceback.
\<close>

record exc_info =
  has_NAME :: bool
  is_recoverable :: bool
  message :: string
  traceback_lines :: "string list"

text \<open>
  The calls the handler makes, in program order. \<^verbatim>\<open>msgBox.open()\<close> shows the dialog and
  returns at once (the warnings handler of the same file uses it too);
  \<^verbatim>\<open>msgBox.exec_()\<close> is the call the source comments with \<^verbatim>\<open># ensures waiting\<close>: it
  returns when the dialog has been dismissed.
\<close>

datatype dialog_event =
    NewMessageBox
  | SetWindowTitle string
  | SetIconCritical
  | SetText string
  | SetDetailedText string
  | OldExceptionHandler
  | MsgBoxOpen
  | MsgBoxExec

datatype handler_outcome = HandlerReturns | ProcessExit int

definition message_box :: "string \<Rightarrow> exc_info \<Rightarrow> dialog_event list" where
  "message_box title exc =
     [NewMessageBox,
      SetWindowTitle (if has_NAME exc then title else ''Error''),
      SetIconCritical,
      SetText (message exc),
      SetDetailedText (concat (traceback_lines exc))]"

text \<open>
  \<open>title\<close> is \<^verbatim>\<open>__info__.__title__\<close>; \<open>test\<close> is the keyword argument of \<^verbatim>\<open>main\<close>.
  \<^verbatim>\<open>exit(1)\<close> ends the process with status 1.
\<close>

definition exception_handler ::
  "bool \<Rightarrow> string \<Rightarrow> exc_info \<Rightarrow> dialog_event list \<times> handler_outcome" where
  "exception_handler test title exc =
     (if test then (message_box title exc @ [OldExceptionHandler], HandlerReturns)
      else if is_recoverable exc
      then (message_box title exc @ [OldExceptionHandler, MsgBoxOpen], HandlerReturns)
      else (message_box title exc @ [OldExceptionHandler, MsgBoxExec], ProcessExit 1))"

text \<open>A dialog is shown by one of the two calls.\<close>

fun shows_dialog :: "dialog_event \<Rightarrow> bool" where
  "shows_dialog MsgBoxOpen = True"
| "shows_dialog MsgBoxExec = True"
| "shows_dialog _ = False"

subsection \<open>The session (lines 41 to 126)\<close>

text \<open>
  The calls of \<^verbatim>\<open>main\<close>, in program order. The window's two methods are not among the
  sources: \<^verbatim>\<open>model_experiment\<close> may raise, \<^verbatim>\<open>setExperiment\<close> only stores the experiment.
\<close>

datatype 'e gui_event =
    FontPreloaderStart
  | LoggingBasicConfig string
  | NewQApplication
  | QApplicationInstance
  | SetStyleFusion
  | SetPalette
  | NewMainWidget
  | InstallHandlers
  | WindowShow
  | GuiReadTextFile string
  | GuiReadJsonFile string
  | GuiReadExtrap3Experiment string
  | WindowModelExperiment 'e
  | WindowSetExperiment 'e
  | AppExec
  | FontPreloaderJoin

datatype gui_outcome = ReturnsNone | ReturnsWindowApp | GuiRaises error

record 'e gui_env = "'e fileio" +
  model_experiment :: "'e \<Rightarrow> error option"

definition startup :: "bool \<Rightarrow> string list \<Rightarrow> 'e gui_event list" where
  "startup test argv =
     [FontPreloaderStart,
      LoggingBasicConfig (if ''--debug'' \<in> set argv then ''DEBUG'' else ''INFO''),
      (if \<not> test then NewQApplication else QApplicationInstance),
      SetStyleFusion, SetPalette, NewMainWidget, InstallHandlers, WindowShow]"

text \<open>Lines 108 to 119: the file named at start-up.\<close>

definition autoload :: "'e gui_env \<Rightarrow> string list \<Rightarrow> 'e gui_event list \<times> error option" where
  "autoload env argv =
     (if length argv \<ge> 3 \<and> ''--text'' = argv ! 1 then
        (case read_text_file env (argv ! 2) of
           Inl e \<Rightarrow> ([GuiReadTextFile (argv ! 2)], Some e)
         | Inr experiment \<Rightarrow>
             ([GuiReadTextFile (argv ! 2), WindowModelExperiment experiment],
              model_experiment env experiment))
      else if length argv \<ge> 3 \<and> ''--json'' = argv ! 1 then
        (case read_json_file env (argv ! 2) of
           Inl e \<Rightarrow> ([GuiReadJsonFile (argv ! 2)], Some e)
         | Inr experiment \<Rightarrow>
             ([GuiReadJsonFile (argv ! 2), WindowModelExperiment experiment],
              model_experiment env experiment))
      else if length argv \<ge> 3 \<and> ''--extra-p-3'' = argv ! 1 then
        (case read_extrap3_experiment env (argv ! 2) of
           Inl e \<Rightarrow> ([GuiReadExtrap3Experiment (argv ! 2)], Some e)
         | Inr experiment \<Rightarrow>
             ([GuiReadExtrap3Experiment (argv ! 2), WindowSetExperiment experiment], None))
      else ([], None))"

definition gui_main :: "'e gui_env \<Rightarrow> bool \<Rightarrow> string list \<Rightarrow> 'e gui_event list \<times> gui_outcome" where
  "gui_main env test argv =
     (case autoload env argv of
        (loaded, Some e) \<Rightarrow> (startup test argv @ loaded, GuiRaises e)
      | (loaded, None) \<Rightarrow>
          (if \<not> test
           then (startup test argv @ loaded @ [AppExec, FontPreloaderJoin], ReturnsNone)
           else (startup test argv @ loaded @ [FontPreloaderJoin], ReturnsWindowApp)))"

fun is_model_experiment :: "'e gui_event \<Rightarrow> bool" where
  "is_model_experiment (WindowModelExperiment x) = True"
| "is_model_experiment _ = False"

section \<open>Example environments\<close>

text \<open>Readers that succeed on every path and a window whose modelling succeeds.\<close>

definition example_gui_env :: "nat gui_env" where
  "example_gui_env =
     \<lparr>read_cube_file = (\<lambda>p s. Inr 0), read_text_file = (\<lambda>p. Inr 1),
      read_talpas_file = (\<lambda>p. Inr 2), read_json_file = (\<lambda>p. Inr 3),
      read_extrap3_experiment = (\<lambda>p. Inr 4), model_experiment = (\<lambda>e. None)\<rparr>"

text \<open>
  A batch environment: \<^verbatim>\<open>runs\<close> is a directory, \<^verbatim>\<open>nowhere\<close> does not exist, every other
  path is a regular file; every reader succeeds; the modeler \<^verbatim>\<open>Multi-Parameter\<close> is the
  composite one and owns a \<^verbatim>\<open>Default\<close> single-parameter modeler; an instance of
  \<^verbatim>\<open>Basic\<close> has the attribute \<^verbatim>\<open>poly_exponents\<close>, an instance of \<^verbatim>\<open>Default\<close> has not.
\<close>

definition example_env :: "nat batch_env" where
  "example_env =
     \<lparr>read_cube_file = (\<lambda>p s. Inr (if s = ''strong'' then 10 else 11)), read_text_file = (\<lambda>p. Inr 1),
      read_talpas_file = (\<lambda>p. Inr 2), read_json_file = (\<lambda>p. Inr 3),
      read_extrap3_experiment = (\<lambda>p. Inr 4),
      path_kind_of = (\<lambda>p. if p = ''runs'' then Directory else if p = ''nowhere'' then Missing else RegularFile),
      modelers_list = [''Default'', ''Basic'', ''Multi-Parameter''],
      SINGLE_PARAMETER_MODELER_KEY = ''#single_parameter_modeler'',
      SINGLE_PARAMETER_OPTIONS_KEY = ''#single_parameter_options'',
      generator_modeler = (\<lambda>e name use_median.
         Inr (if name = ''Multi-Parameter''
              then VObj ''MultiParameterModeler''
                     [(''use_median'', VBool use_median),
                      (''single_parameter_modeler'', VObj ''Default'' [(''allow_log_terms'', VBool True)])]
              else if name = ''Basic''
              then VObj ''Basic''
                     [(''allow_log_terms'', VBool True), (''poly_exponents'', VStr ''0,1,2,3'')]
              else VObj name [(''allow_log_terms'', VBool True)])),
      is_multi_parameter = (\<lambda>m. class_of m = Some ''MultiParameterModeler''),
      all_modelers = (\<lambda>name. if name = ''Default'' \<or> name = ''Basic''
                               then Some (VObj name [(''allow_log_terms'', VBool True)]) else None),
      model_all = (\<lambda>e m use_median. Inr e),
      format_output = (\<lambda>e t. ''models'')\<rparr>"

text \<open>
  A composite modeler as \<^verbatim>\<open>ModelGenerator\<close> creates it in the example environment, a
  parsed \<^verbatim>\<open>--options\<close> dictionary for it, and the modeler after the options have been
  applied.
\<close>

definition example_modeler :: pyval where
  "example_modeler =
     VObj ''MultiParameterModeler''
       [(''use_median'', VBool False),
        (''single_parameter_modeler'', VObj ''Default'' [(''allow_log_terms'', VBool True)])]"

definition example_options :: "(string \<times> pyval) list" where
  "example_options =
     [(''#single_parameter_modeler'', VStr ''Basic''),
      (''#single_parameter_options'',
         VDict [(''allow_log_terms'', VNone), (''poly_exponents'', VStr ''0,1,2'')]),
      (''use_median'', VNone)]"

definition example_configured :: pyval where
  "example_configured =
     VObj ''MultiParameterModeler''
       [(''use_median'', VBool False),
        (''single_parameter_modeler'',
           VObj ''Basic'' [(''allow_log_terms'', VBool True), (''poly_exponents'', VStr ''0,1,2'')]),
        (''#single_parameter_modeler'', VStr ''Basic''),
        (''#single_parameter_options'',
           VDict [(''allow_log_terms'', VNone), (''poly_exponents'', VStr ''0,1,2'')])]"

section \<open>The state of the parser\<close>

text \<open>
  What holds of the parser's state after every argument: a selector's flag is set exactly
  when the selector has been seen, and all the selectors seen are the same one.
\<close>

definition group_ok :: "parser_state \<Rightarrow> bool" where
  "group_ok st = ((\<forall>s. flag s (namespace st) = (s \<in> set (seen st)))
                  \<and> (\<forall>s \<in> set (seen st). \<forall>s' \<in> set (seen st). s' = s))"

section \<open>Properties of the interactive driver\<close>

lemma message_box_no_dialog: "filter shows_dialog (message_box title exc) = []"
  by (simp add: message_box_def)

lemma message_box_no_forward: "OldExceptionHandler \<notin> set (message_box title exc)"
  by (simp add: message_box_def)

lemma startup_no_loop:
  "AppExec \<notin> set (startup test argv)" "FontPreloaderJoin \<notin> set (startup test argv)"
  by (simp_all add: startup_def)

lemma autoload_no_loop:
  "AppExec \<notin> set (fst (autoload env argv))" "FontPreloaderJoin \<notin> set (fst (autoload env argv))"
  by (simp_all add: autoload_def split: sum.splits)

text \<open>
  C6. Outside test mode, an uncaught exception whose type is not a subclass of
  RecoverableError is first forwarded to the previously installed handler, then shown in a
  dialog opened with the waiting call \<^verbatim>\<open>exec_()\<close>, and after that the process ends
  with the non-zero status 1. The handler's calls are exactly: the set-up of the message
  box (which neither forwards nor shows anything), the forwarding, the waiting dialog.
\<close>

theorem fatal_exception_dialog_then_exit:
  assumes "\<not> test" and "\<not> is_recoverable exc"
  shows "exception_handler test title exc =
           (message_box title exc @ [OldExceptionHandler, MsgBoxExec], ProcessExit 1)
         \<and> filter shows_dialog (fst (exception_handler test title exc)) = [MsgBoxExec]
         \<and> OldExceptionHandler \<notin> set (message_box title exc)
         \<and> snd (exception_handler test title exc) \<noteq> ProcessExit 0
         \<and> snd (exception_handler test title exc) \<noteq> HandlerReturns"
  using assms by (simp add: exception_handler_def message_box_no_dialog message_box_no_forward)

theorem fatal_exception_dialog_then_exit_witness:
  "exception_handler False ''Extra-P''
     \<lparr>has_NAME = False, is_recoverable = False, message = ''boom'', traceback_lines = [''l1'', ''l2'']\<rparr>
   = ([NewMessageBox, SetWindowTitle ''Error'', SetIconCritical, SetText ''boom'',
       SetDetailedText ''l1l2'', OldExceptionHandler, MsgBoxExec], ProcessExit 1)"
  using fatal_exception_dialog_then_exit [of False
     "\<lparr>has_NAME = False, is_recoverable = False, message = ''boom'', traceback_lines = [''l1'', ''l2'']\<rparr>"
     "''Extra-P''"]
  by (simp add: message_box_def)




text \<open>
  C3, as stated, fails outside test mode: a session started without a file enters the
  event loop (\<^verbatim>\<open>app.exec_()\<close>) first and joins the font preloader only after the loop has
  returned.
\<close>

theorem font_preloader_join_counterexample:
  "gui_main example_gui_env False [''extrapgui''] =
     ([FontPreloaderStart, LoggingBasicConfig ''INFO'', NewQApplication, SetStyleFusion, SetPalette,
       NewMainWidget, InstallHandlers, WindowShow, AppExec, FontPreloaderJoin], ReturnsNone)"
  by (simp add: gui_main_def autoload_def startup_def example_gui_env_def)

text \<open>
  C3, amended. When the file named at start-up, if any, loads without an exception:
  outside test mode the font preloader is joined after the event loop has returned, as
  the last call of \<^verbatim>\<open>main\<close>, and not before; in test mode it is joined, the window and
  the application are returned, and the event loop is never entered.
\<close>

theorem font_preloader_joined_after_event_loop:
  assumes "snd (autoload env argv) = None"
  shows "(\<not> test \<longrightarrow>
            gui_main env test argv =
              (startup test argv @ fst (autoload env argv) @ [AppExec, FontPreloaderJoin], ReturnsNone)
            \<and> FontPreloaderJoin \<notin> set (startup test argv @ fst (autoload env argv)))
       \<and> (test \<longrightarrow>
            gui_main env test argv =
              (startup test argv @ fst (autoload env argv) @ [FontPreloaderJoin], ReturnsWindowApp)
            \<and> AppExec \<notin> set (fst (gui_main env test argv)))"
proof -
  obtain loaded where l: "autoload env argv = (loaded, None)"
    using assms by (cases "autoload env argv") auto
  have "AppExec \<notin> set loaded" "FontPreloaderJoin \<notin> set loaded"
    using autoload_no_loop [of env argv] l by simp_all
  then show ?thesis
    using l by (simp add: gui_main_def startup_no_loop)
qed

theorem font_preloader_joined_after_event_loop_witness:
  "gui_main example_gui_env True [''extrapgui'', ''--json'', ''m.jsonl''] =
     ([FontPreloaderStart, LoggingBasicConfig ''INFO'', QApplicationInstance, SetStyleFusion, SetPalette,
       NewMainWidget, InstallHandlers, WindowShow, GuiReadJsonFile ''m.jsonl'', WindowModelExperiment 3,
       FontPreloaderJoin], ReturnsWindowApp)
   \<and> gui_main example_gui_env False [''extrapgui'', ''--json'', ''m.jsonl''] =
     ([FontPreloaderStart, LoggingBasicConfig ''INFO'', NewQApplication, SetStyleFusion, SetPalette,
       NewMainWidget, InstallHandlers, WindowShow, GuiReadJsonFile ''m.jsonl'', WindowModelExperiment 3,
       AppExec, FontPreloaderJoin], ReturnsNone)"
proof -
  have a: "snd (autoload example_gui_env [''extrapgui'', ''--json'', ''m.jsonl'']) = None"
    by (simp add: autoload_def example_gui_env_def)
  show ?thesis
    using font_preloader_joined_after_event_loop [OF a, of True]
      font_preloader_joined_after_event_loop [OF a, of False]
    by (simp add: autoload_def startup_def example_gui_env_def)
qed

text \<open>
  C5 at \<^verbatim>\<open>--extra-p-3 PATH\<close>. The experiment is read with the Extra-P 3 reader and
  handed to \<^verbatim>\<open>window.setExperiment\<close>; \<^verbatim>\<open>window.model_experiment\<close>, which the branches
  for \<^verbatim>\<open>--text\<close> and \<^verbatim>\<open>--json\<close> call and which the comment of line 118 announces
  ("call the modeler and create a function model"), is not called anywhere in the run.
\<close>

theorem autoload_extrap3_sets_experiment_only:
  "gui_main example_gui_env False [''extrapgui'', ''--extra-p-3'', ''exp.extra-p''] =
     ([FontPreloaderStart, LoggingBasicConfig ''INFO'', NewQApplication, SetStyleFusion, SetPalette,
       NewMainWidget, InstallHandlers, WindowShow, GuiReadExtrap3Experiment ''exp.extra-p'',
       WindowSetExperiment 4, AppExec, FontPreloaderJoin], ReturnsNone)
   \<and> filter is_model_experiment
        (fst (gui_main example_gui_env False [''extrapgui'', ''--extra-p-3'', ''exp.extra-p''])) = []"
  by (simp add: gui_main_def autoload_def startup_def example_gui_env_def)

text \<open>
  What each start-up selector does, with the selector as first and the path as second
  argument: for \<^verbatim>\<open>--text\<close> and \<^verbatim>\<open>--json\<close> the file is read with the text, respectively
  JSON, reader and, when the reader returns an experiment, \<^verbatim>\<open>window.model_experiment\<close>
  is called on it; for \<^verbatim>\<open>--extra-p-3\<close> the experiment goes to \<^verbatim>\<open>window.setExperiment\<close>.
  All of this precedes the event loop.
\<close>

theorem autoload_branches:
  assumes "length argv \<ge> 3"
  shows "(argv ! 1 = ''--text'' \<longrightarrow> read_text_file env (argv ! 2) = Inr ex \<longrightarrow>
            autoload env argv =
              ([GuiReadTextFile (argv ! 2), WindowModelExperiment ex], model_experiment env ex))
       \<and> (argv ! 1 = ''--json'' \<longrightarrow> read_json_file env (argv ! 2) = Inr ex \<longrightarrow>
            autoload env argv =
              ([GuiReadJsonFile (argv ! 2), WindowModelExperiment ex], model_experiment env ex))
       \<and> (argv ! 1 = ''--extra-p-3'' \<longrightarrow> read_extrap3_experiment env (argv ! 2) = Inr ex \<longrightarrow>
            autoload env argv =
              ([GuiReadExtrap3Experiment (argv ! 2), WindowSetExperiment ex], None))
       \<and> (\<not> test \<longrightarrow> snd (autoload env argv) = None \<longrightarrow>
            fst (gui_main env test argv) =
              startup test argv @ fst (autoload env argv) @ [AppExec, FontPreloaderJoin]
            \<and> AppExec \<notin> set (startup test argv @ fst (autoload env argv)))"
proof -
  have "\<not> test \<longrightarrow> snd (autoload env argv) = None \<longrightarrow>
            fst (gui_main env test argv) =
              startup test argv @ fst (autoload env argv) @ [AppExec, FontPreloaderJoin]
            \<and> AppExec \<notin> set (startup test argv @ fst (autoload env argv))"
    using autoload_no_loop(1) [of env argv]
    by (cases "autoload env argv") (auto simp: gui_main_def startup_no_loop)
  moreover have "argv ! 1 = ''--text'' \<longrightarrow> read_text_file env (argv ! 2) = Inr ex \<longrightarrow>
            autoload env argv =
              ([GuiReadTextFile (argv ! 2), WindowModelExperiment ex], model_experiment env ex)"
    using assms by (simp add: autoload_def)
  moreover have "argv ! 1 = ''--json'' \<longrightarrow> read_json_file env (argv ! 2) = Inr ex \<longrightarrow>
            autoload env argv =
              ([GuiReadJsonFile (argv ! 2), WindowModelExperiment ex], model_experiment env ex)"
    using assms by (simp add: autoload_def)
  moreover have "argv ! 1 = ''--extra-p-3'' \<longrightarrow> read_extrap3_experiment env (argv ! 2) = Inr ex \<longrightarrow>
            autoload env argv =
              ([GuiReadExtrap3Experiment (argv ! 2), WindowSetExperiment ex], None)"
    using assms by (simp add: autoload_def)
  ultimately show ?thesis by blast
qed

theorem autoload_branches_example:
  "autoload example_gui_env [''extrapgui'', ''--text'', ''in.txt''] =
     ([GuiReadTextFile ''in.txt'', WindowModelExperiment 1], None)
   \<and> fst (gui_main example_gui_env False [''extrapgui'', ''--text'', ''in.txt'']) =
     [FontPreloaderStart, LoggingBasicConfig ''INFO'', NewQApplication, SetStyleFusion, SetPalette,
       NewMainWidget, InstallHandlers, WindowShow, GuiReadTextFile ''in.txt'', WindowModelExperiment 1,
       AppExec, FontPreloaderJoin]"
proof -
  have a: "length [''extrapgui'', ''--text'', ''in.txt''] \<ge> 3" by simp
  show ?thesis
    using autoload_branches [OF a, of example_gui_env 1 False]
    by (simp add: startup_def example_gui_env_def)
qed

section \<open>Properties of the batch driver\<close>

subsection \<open>The format selectors\<close>

lemma flag_defaults: "flag s defaults = False"
  by (cases s) (simp_all add: defaults_def)

lemma group_ok_init: "group_ok \<lparr>namespace = defaults, seen = []\<rparr>"
  by (simp add: group_ok_def flag_defaults)

lemma flag_store_true: "flag s' (store_true s ns) = (s' = s \<or> flag s' ns)"
  by (cases s; cases s'; simp)

lemma flag_other_fields:
  "flag s (ns\<lparr>log_level := a\<rparr>) = flag s ns"
  "flag s (ns\<lparr>modeler := a\<rparr>) = flag s ns"
  "flag s (ns\<lparr>modeler_options := b\<rparr>) = flag s ns"
  "flag s (ns\<lparr>scaling_type := a\<rparr>) = flag s ns"
  "flag s (ns\<lparr>median := c\<rparr>) = flag s ns"
  "flag s (ns\<lparr>out := d\<rparr>) = flag s ns"
  "flag s (ns\<lparr>print_type := a\<rparr>) = flag s ns"
  "flag s (ns\<lparr>path := d\<rparr>) = flag s ns"
  by (cases s; simp)+

lemma group_ok_same:
  "group_ok st \<Longrightarrow> seen st' = seen st \<Longrightarrow> (\<And>s. flag s (namespace st') = flag s (namespace st))
   \<Longrightarrow> group_ok st'"
  by (simp add: group_ok_def)

lemma group_ok_select:
  assumes "group_ok st" "\<not> list_ex (\<lambda>s'. s' \<noteq> s) (seen st)"
  shows "group_ok (st\<lparr>namespace := store_true s (namespace st), seen := s # seen st\<rparr>)"
  using assms by (auto simp: group_ok_def flag_store_true list_ex_iff)

lemma group_ok_one:
  assumes "group_ok st" "seen st \<noteq> []"
  shows "length (filter (\<lambda>s. flag s (namespace st)) [Cube, Text, Talpas, Json, Extrap3]) = 1"
proof -
  obtain s0 rest where sr: "seen st = s0 # rest" using assms(2) by (cases "seen st") auto
  have fl: "\<And>s. flag s (namespace st) = (s = s0)"
    using assms(1) sr by (auto simp: group_ok_def)
  show ?thesis by (cases s0) (simp_all add: fl)
qed


lemma guarded: "(if c then Inr y else Inl e) = Inr z \<Longrightarrow> z = y"
  by (cases c) simp_all

lemma take_action_group_ok:
  assumes "group_ok st" "take_action env a st = Inr st'"
  shows "group_ok st'"
proof (cases a)
  case (Select s)
  have c: "\<not> list_ex (\<lambda>s'. s' \<noteq> s) (seen st)"
    using assms(2) unfolding Select by (cases "list_ex (\<lambda>s'. s' \<noteq> s) (seen st)") simp_all
  have b: "st' = st\<lparr>namespace := store_true s (namespace st), seen := s # seen st\<rparr>"
    using assms(2) c unfolding Select by simp
  show ?thesis unfolding b using assms(1) c by (rule group_ok_select)
next
  case (Log x)
  have b: "st' = st\<lparr>namespace := (namespace st)\<lparr>log_level := upper x\<rparr>\<rparr>"
    using assms(2) unfolding Log take_action.simps by (rule guarded)
  show ?thesis
    by (rule group_ok_same [OF assms(1)]) (simp_all add: b flag_other_fields)
next
  case (Modeler x)
  have b: "st' = st\<lparr>namespace := (namespace st)\<lparr>modeler := x\<rparr>\<rparr>"
    using assms(2) unfolding Modeler take_action.simps by (rule guarded)
  show ?thesis
    by (rule group_ok_same [OF assms(1)]) (simp_all add: b flag_other_fields)
next
  case (Options x)
  have b: "st' = st\<lparr>namespace := (namespace st)\<lparr>modeler_options := x\<rparr>\<rparr>"
    using assms(2) unfolding Options by simp
  show ?thesis
    by (rule group_ok_same [OF assms(1)]) (simp_all add: b flag_other_fields)
next
  case (Scaling x)
  have b: "st' = st\<lparr>namespace := (namespace st)\<lparr>scaling_type := x\<rparr>\<rparr>"
    using assms(2) unfolding Scaling take_action.simps by (rule guarded)
  show ?thesis
    by (rule group_ok_same [OF assms(1)]) (simp_all add: b flag_other_fields)
next
  case Median
  have b: "st' = st\<lparr>namespace := (namespace st)\<lparr>median := True\<rparr>\<rparr>"
    using assms(2) unfolding Median by simp
  show ?thesis
    by (rule group_ok_same [OF assms(1)]) (simp_all add: b flag_other_fields)
next
  case (Out x)
  have b: "st' = st\<lparr>namespace := (namespace st)\<lparr>out := Some x\<rparr>\<rparr>"
    using assms(2) unfolding Out by simp
  show ?thesis
    by (rule group_ok_same [OF assms(1)]) (simp_all add: b flag_other_fields)
next
  case (Print x)
  have b: "st' = st\<lparr>namespace := (namespace st)\<lparr>print_type := x\<rparr>\<rparr>"
    using assms(2) unfolding Print take_action.simps by (rule guarded)
  show ?thesis
    by (rule group_ok_same [OF assms(1)]) (simp_all add: b flag_other_fields)
next
  case (FilePath x)
  have b: "st' = st\<lparr>namespace := (namespace st)\<lparr>path := Some x\<rparr>\<rparr>"
    using assms(2) unfolding FilePath take_action.simps by (rule guarded)
  show ?thesis
    by (rule group_ok_same [OF assms(1)]) (simp_all add: b flag_other_fields)
next
  case Version
  then show ?thesis using assms(2) by simp
next
  case (HelpOptions x)
  then show ?thesis using assms(2) by (cases "x \<in> set (modelers_list env)") simp_all
qed

lemma consume_group_ok:
  "group_ok st \<Longrightarrow> consume env argv st = Inr st' \<Longrightarrow> group_ok st'"
proof (induction argv arbitrary: st)
  case Nil
  then show ?case by simp
next
  case (Cons a argv)
  show ?case
  proof (cases "take_action env a st")
    case (Inl s)
    then show ?thesis using Cons.prems(2) by simp
  next
    case (Inr st1)
    have "group_ok st1" using take_action_group_ok [OF Cons.prems(1) Inr] .
    moreover have "consume env argv st1 = Inr st'" using Cons.prems(2) Inr by simp
    ultimately show ?thesis by (rule Cons.IH)
  qed
qed

lemma parse_args_one_selector:
  assumes "parse_args env argv = Inr args"
  shows "length (filter (\<lambda>s. flag s args) [Cube, Text, Talpas, Json, Extrap3]) = 1"
proof -
  obtain st where c: "consume env argv \<lparr>namespace = defaults, seen = []\<rparr> = Inr st"
    using assms by (cases "consume env argv \<lparr>namespace = defaults, seen = []\<rparr>") (simp_all add: parse_args_def)
  have ok: "group_ok st" using consume_group_ok [OF group_ok_init c] .
  have "seen st \<noteq> [] \<and> args = namespace st"
    using assms c by (cases "path (namespace st) = None"; cases "seen st = []") (simp_all add: parse_args_def)
  then show ?thesis using group_ok_one [OF ok] by simp
qed

subsection \<open>The calls of a run\<close>

lemma fst_and_then:
  "fst (and_then m f) = fst m @ (case snd m of Inl s \<Rightarrow> [] | Inr a \<Rightarrow> fst (f a))"
  by (cases m; cases "snd m") (simp_all add: and_then_def case_prod_beta)

lemma and_then_event:
  "ev \<in> set (fst (and_then m f)) \<Longrightarrow>
     ev \<in> set (fst m) \<or> (\<exists>a. snd m = Inr a \<and> ev \<in> set (fst (f a)))"
  by (cases "snd m") (simp_all add: fst_and_then)

lemma and_then_silent:
  "(\<And>a. fst (f a) = []) \<Longrightarrow> fst (and_then m f) = fst m"
  by (cases "snd m") (simp_all add: fst_and_then)

lemma apply_options_events:
  "ev \<in> set (fst (apply_options t obj kvs)) \<Longrightarrow>
     \<exists>n v. ev = SetAttr t n v \<and> v \<noteq> VNone \<and> (n, v) \<in> set kvs"
proof (induction kvs arbitrary: obj)
  case Nil
  then show ?case by simp
next
  case (Cons kv kvs)
  obtain name v where kv: "kv = (name, v)" by (cases kv)
  show ?case
  proof (cases "v = VNone")
    case True
    then have "ev \<in> set (fst (apply_options t obj kvs))" using Cons.prems kv by simp
    then show ?thesis using Cons.IH [of obj] by auto
  next
    case False
    show ?thesis
    proof (cases "setattr obj name v")
      case (Inl e)
      then show ?thesis using Cons.prems kv False by simp
    next
      case (Inr obj')
      then have "ev = SetAttr t name v \<or> ev \<in> set (fst (apply_options t obj' kvs))"
        using Cons.prems kv False by (auto split: prod.splits)
      then show ?thesis using Cons.IH [of obj'] kv False by auto
    qed
  qed
qed

lemma load_missing_specifier:
  assumes "LogError ''The file format specifier is missing.'' \<in> set (fst (load env args p))"
  shows "\<not> cube args \<and> \<not> text_flag args \<and> \<not> talpas args \<and> \<not> json args \<and> \<not> extrap3 args"
  using assms by (auto simp: load_def call_def error_exit_def split: if_splits)

lemma set_single_parameter_modeler_events:
  "ev \<in> set (fst (set_single_parameter_modeler env m opts)) \<Longrightarrow> \<exists>inst. ev = AssignSingleParameterModeler inst"
  by (auto simp: set_single_parameter_modeler_def raise_def call_def split: option.splits if_splits sum.splits)

lemma apply_single_parameter_options_events:
  assumes "ev \<in> set (fst (apply_single_parameter_options env m opts))"
  shows "\<exists>n v nested. ev = SetAttr OnSingleParameterModeler n v \<and> v \<noteq> VNone
           \<and> map_of opts (SINGLE_PARAMETER_OPTIONS_KEY env) = Some (VDict nested) \<and> (n, v) \<in> set nested"
proof (cases "getattr m ''single_parameter_modeler''")
  case (Inl e)
  then show ?thesis using assms by (simp add: apply_single_parameter_options_def raise_def)
next
  case (Inr sub)
  show ?thesis
  proof (cases "sub = VNone")
    case True
    then show ?thesis using assms Inr by (simp add: apply_single_parameter_options_def)
  next
    case False
    show ?thesis
    proof (cases "map_of opts (SINGLE_PARAMETER_OPTIONS_KEY env)")
      case None
      then show ?thesis using assms Inr False by (simp add: apply_single_parameter_options_def raise_def)
    next
      case (Some d)
      show ?thesis
      proof (cases d)
        case (VDict nested)
        have "fst (and_then (apply_options OnSingleParameterModeler sub nested)
                    (\<lambda>sub'. case setattr m ''single_parameter_modeler'' sub' of
                               Inl e \<Rightarrow> raise e
                             | Inr m' \<Rightarrow> ([], Inr m')))
              = fst (apply_options OnSingleParameterModeler sub nested)"
          by (rule and_then_silent) (simp add: raise_def split: sum.splits)
        then have "ev \<in> set (fst (apply_options OnSingleParameterModeler sub nested))"
          using assms Inr False Some VDict
          by (simp add: apply_single_parameter_options_def)
        then show ?thesis using apply_options_events [of ev OnSingleParameterModeler sub nested] Some VDict
          by auto
      qed (use assms Inr False Some in \<open>simp_all add: apply_single_parameter_options_def raise_def\<close>)
    qed
  qed
qed

lemma configure_events:
  assumes "ev \<in> set (fst (configure env m opts))"
  shows "(\<exists>inst. ev = AssignSingleParameterModeler inst)
       \<or> (\<exists>n v nested. ev = SetAttr OnSingleParameterModeler n v \<and> v \<noteq> VNone
             \<and> map_of opts (SINGLE_PARAMETER_OPTIONS_KEY env) = Some (VDict nested) \<and> (n, v) \<in> set nested)
       \<or> (\<exists>n v. ev = SetAttr OnModeler n v \<and> v \<noteq> VNone \<and> (n, v) \<in> set opts)"
proof -
  let ?first = "if is_multi_parameter env m \<and> opts \<noteq> []
        then and_then (set_single_parameter_modeler env m opts)
                      (\<lambda>m1. apply_single_parameter_options env m1 opts)
        else ([], Inr m)"
  have "ev \<in> set (fst ?first) \<or> (\<exists>m2. ev \<in> set (fst (apply_options OnModeler m2 opts)))"
    using assms and_then_event [of ev ?first "\<lambda>m2. apply_options OnModeler m2 opts"]
    unfolding configure_def by blast
  moreover have "ev \<in> set (fst ?first) \<Longrightarrow>
      ev \<in> set (fst (set_single_parameter_modeler env m opts))
      \<or> (\<exists>m1. ev \<in> set (fst (apply_single_parameter_options env m1 opts)))"
    using and_then_event [of ev "set_single_parameter_modeler env m opts"
        "\<lambda>m1. apply_single_parameter_options env m1 opts"]
    by (cases "is_multi_parameter env m \<and> opts \<noteq> []") auto
  ultimately show ?thesis
    using set_single_parameter_modeler_events [of ev env m opts]
      apply_single_parameter_options_events [of ev env _ opts]
      apply_options_events [of ev OnModeler _ opts]
    by blast
qed

lemma run_models_no_log: "LogError msg \<notin> set (fst (run_models env args experiment))"
proof
  assume a: "LogError msg \<in> set (fst (run_models env args experiment))"
  let ?g = "call (NewModelGenerator (modeler args) (median args))
                    (generator_modeler env experiment (modeler args) (median args))"
  from a have "LogError msg \<in> set (fst ?g) \<or>
      (\<exists>m. LogError msg \<in> set (fst (and_then (configure env m (modeler_options args))
         (\<lambda>m'. and_then (call (ModelAll m') (model_all env experiment m' (median args)))
           (\<lambda>modelled. report env args modelled)))))"
    unfolding run_models_def using and_then_event by fast
  moreover have "LogError msg \<notin> set (fst ?g)" by (simp add: call_def)
  ultimately obtain m where "LogError msg \<in> set (fst (and_then (configure env m (modeler_options args))
         (\<lambda>m'. and_then (call (ModelAll m') (model_all env experiment m' (median args)))
           (\<lambda>modelled. report env args modelled))))" by blast
  then have "LogError msg \<in> set (fst (configure env m (modeler_options args))) \<or>
     (\<exists>m'. LogError msg \<in> set (fst (and_then (call (ModelAll m') (model_all env experiment m' (median args)))
           (\<lambda>modelled. report env args modelled))))"
    using and_then_event by fast
  moreover have "LogError msg \<notin> set (fst (configure env m (modeler_options args)))"
    using configure_events [of "LogError msg" env m "modeler_options args"] by auto
  ultimately obtain m' where "LogError msg \<in> set (fst (and_then (call (ModelAll m') (model_all env experiment m' (median args)))
           (\<lambda>modelled. report env args modelled)))" by blast
  then have "LogError msg \<in> set (fst (call (ModelAll m') (model_all env experiment m' (median args))))
     \<or> (\<exists>modelled. LogError msg \<in> set (fst (report env args modelled)))"
    using and_then_event by fast
  then show False
    by (auto simp: call_def report_def Let_def split: option.splits)
qed

lemma run_batch_log:
  assumes "LogError msg \<in> set (fst (run_batch env args))"
  shows "(path args = None \<and> msg = ''No file path given to load files.'')
       \<or> (\<exists>p. path args = Some p \<and> LogError msg \<in> set (fst (load env args p)))"
proof (cases "path args")
  case None
  then show ?thesis using assms by (simp add: run_batch_def error_exit_def)
next
  case (Some p)
  then have "LogError msg \<in> set (fst (load env args p)) \<or>
     (\<exists>experiment. LogError msg \<in> set (fst (and_then ([ExperimentDebug], Inr ())
               (\<lambda>_. run_models env args experiment))))"
    using assms and_then_event unfolding run_batch_def by fastforce
  moreover have "LogError msg \<notin> set (fst (and_then ([ExperimentDebug], Inr ())
               (\<lambda>_. run_models env args ex)))" for ex
  proof
    assume "LogError msg \<in> set (fst (and_then ([ExperimentDebug], Inr ())
               (\<lambda>_. run_models env args ex)))"
    then have "LogError msg \<in> set (fst (run_models env args ex))"
      using and_then_event [of "LogError msg" "([ExperimentDebug], Inr ())"
          "\<lambda>_. run_models env args ex"] by auto
    then show False using run_models_no_log by fast
  qed
  ultimately show ?thesis using Some by blast
qed

subsection \<open>Claims about loading\<close>

text \<open>
  C9. Whenever argument parsing succeeds, exactly one of the five format selectors
  (\<^verbatim>\<open>--cube\<close>, \<^verbatim>\<open>--text\<close>, \<^verbatim>\<open>--talpas\<close>, \<^verbatim>\<open>--json\<close>, \<^verbatim>\<open>--extra-p-3\<close>) is set in
  the namespace, and the run of the driver on that namespace never logs
  "The file format specifier is missing.": that branch is unreachable.
\<close>

theorem format_selector_never_missing:
  assumes "parse_args env argv = Inr args"
  shows "length (filter (\<lambda>s. flag s args) [Cube, Text, Talpas, Json, Extrap3]) = 1
       \<and> LogError ''The file format specifier is missing.'' \<notin> set (fst (run_batch env args))"
proof -
  have one: "length (filter (\<lambda>s. flag s args) [Cube, Text, Talpas, Json, Extrap3]) = 1"
    using parse_args_one_selector [OF assms] .
  have some: "cube args \<or> text_flag args \<or> talpas args \<or> json args \<or> extrap3 args"
  proof (rule ccontr)
    assume "\<not> ?thesis"
    then have "filter (\<lambda>s. flag s args) [Cube, Text, Talpas, Json, Extrap3] = []" by simp
    then show False using one by simp
  qed
  have "LogError ''The file format specifier is missing.'' \<notin> set (fst (run_batch env args))"
  proof
    assume a: "LogError ''The file format specifier is missing.'' \<in> set (fst (run_batch env args))"
    from run_batch_log [OF a] obtain p where
      "LogError ''The file format specifier is missing.'' \<in> set (fst (load env args p))"
      by auto
    then show False using load_missing_specifier some by blast
  qed
  then show ?thesis using one by simp
qed

theorem format_selector_never_missing_witness:
  "length (filter (\<lambda>s. flag s (defaults\<lparr>json := True, path := Some ''m.jsonl''\<rparr>))
       [Cube, Text, Talpas, Json, Extrap3]) = 1
   \<and> LogError ''The file format specifier is missing.''
        \<notin> set (fst (run_batch example_env (defaults\<lparr>json := True, path := Some ''m.jsonl''\<rparr>)))"
proof -
  have a: "parse_args example_env [Select Json, FilePath ''m.jsonl'']
             = Inr (defaults\<lparr>json := True, path := Some ''m.jsonl''\<rparr>)"
    by (simp add: parse_args_def defaults_def)
  show ?thesis using format_selector_never_missing [OF a] .
qed

text \<open>
  C4, as stated, fails. With a directory as path and \<^verbatim>\<open>--text\<close> as selector the process
  ends with status 1, but the message logged is "The given file path is not valid.", not
  one about a missing format specifier; with no selector at all, argument parsing itself
  ends the process, with status 2.
\<close>

theorem directory_without_cube_counterexample:
  "parse_args example_env [Select Text, Out ''report.txt'', FilePath ''runs'']
     = Inr (defaults\<lparr>text_flag := True, out := Some ''report.txt'', path := Some ''runs''\<rparr>)
   \<and> run_batch example_env (defaults\<lparr>text_flag := True, out := Some ''report.txt'', path := Some ''runs''\<rparr>)
     = ([LogError ''The given file path is not valid.''], Inl (SystemExit 1))
   \<and> parse_args example_env [Out ''report.txt'', FilePath ''runs''] = Inl (SystemExit 2)"
  by (simp add: parse_args_def defaults_def run_batch_def load_def isdir_def isfile_def
        error_exit_def and_then_def example_env_def)

text \<open>
  C4, amended. When the path is a directory and the parsed arguments do not select
  \<^verbatim>\<open>--cube\<close>, the driver logs "The given file path is not valid." and ends the process
  with status 1; this is its only call, so nothing is printed and no output file is
  written, whether or not \<^verbatim>\<open>--out\<close> was given.
\<close>

theorem directory_without_cube_selector:
  assumes "path args = Some p" and "isdir env p" and "\<not> cube args"
  shows "run_batch env args = ([LogError ''The given file path is not valid.''], Inl (SystemExit 1))
       \<and> filter is_save_output (fst (run_batch env args)) = []"
  using assms by (simp add: run_batch_def load_def isdir_def isfile_def error_exit_def and_then_def)

theorem directory_without_cube_selector_witness:
  "run_batch example_env (defaults\<lparr>json := True, out := Some ''report.txt'', path := Some ''runs''\<rparr>)
     = ([LogError ''The given file path is not valid.''], Inl (SystemExit 1))"
proof -
  have a: "path (defaults\<lparr>json := True, out := Some ''report.txt'', path := Some ''runs''\<rparr>) = Some ''runs''"
    by simp
  have b: "isdir example_env ''runs''" by (simp add: isdir_def example_env_def)
  have c: "\<not> cube (defaults\<lparr>json := True, out := Some ''report.txt'', path := Some ''runs''\<rparr>)"
    by (simp add: defaults_def)
  show ?thesis using directory_without_cube_selector [OF a b c] by simp
qed

text \<open>
  C8. The value of \<^verbatim>\<open>--scaling\<close> is stored unchanged by the parser and handed unchanged
  to \<^verbatim>\<open>read_cube_file\<close> when \<^verbatim>\<open>--cube\<close> is selected and the path is a directory. When
  \<^verbatim>\<open>--cube\<close> is not selected, the value has no effect: loading, and the whole run, are
  the same for every scaling value, so no other reader receives it.
\<close>

theorem scaling_forwarded_to_cube_reader_only:
  "(cube args \<longrightarrow> isdir env p \<longrightarrow>
      load env args p = call (CallReadCubeFile p (scaling_type args))
                             (read_cube_file env p (scaling_type args)))
   \<and> (\<not> cube args \<longrightarrow> load env (args\<lparr>scaling_type := s\<rparr>) p = load env args p)
   \<and> (\<not> cube args \<longrightarrow> run_batch env (args\<lparr>scaling_type := s\<rparr>) = run_batch env args)
   \<and> (take_action env (Scaling s) st = Inr st' \<longrightarrow> scaling_type (namespace st') = s)"
proof -
  have 1: "cube args \<longrightarrow> isdir env p \<longrightarrow>
      load env args p = call (CallReadCubeFile p (scaling_type args))
                             (read_cube_file env p (scaling_type args))"
    by (simp add: load_def)
  have 2: "\<not> cube args \<longrightarrow> load env (args\<lparr>scaling_type := s\<rparr>) q = load env args q" for q
    by (simp add: load_def)
  have 3: "\<not> cube args \<longrightarrow> run_batch env (args\<lparr>scaling_type := s\<rparr>) = run_batch env args"
    using 2 by (simp add: run_batch_def run_models_def report_def split: option.splits)
  have 4: "take_action env (Scaling s) st = Inr st' \<longrightarrow> scaling_type (namespace st') = s"
  proof
    assume "take_action env (Scaling s) st = Inr st'"
    then have "st' = st\<lparr>namespace := (namespace st)\<lparr>scaling_type := s\<rparr>\<rparr>"
      unfolding take_action.simps by (rule guarded)
    then show "scaling_type (namespace st') = s" by simp
  qed
  show ?thesis using 1 2 3 4 by blast
qed

theorem scaling_forwarded_to_cube_reader_only_witness:
  "load example_env (defaults\<lparr>cube := True, scaling_type := ''strong'', path := Some ''runs''\<rparr>) ''runs''
     = ([CallReadCubeFile ''runs'' ''strong''], Inr 10)
   \<and> run_batch example_env (defaults\<lparr>text_flag := True, path := Some ''in.txt''\<rparr>\<lparr>scaling_type := ''strong''\<rparr>)
     = run_batch example_env (defaults\<lparr>text_flag := True, path := Some ''in.txt''\<rparr>)"
proof -
  let ?A = "defaults\<lparr>cube := True, scaling_type := ''strong'', path := Some ''runs''\<rparr>"
  let ?B = "defaults\<lparr>text_flag := True, path := Some ''in.txt''\<rparr>"
  let ?st = "\<lparr>namespace = defaults, seen = []\<rparr>"
  have b: "isdir example_env ''runs''" by (simp add: isdir_def example_env_def)
  have c: "cube ?A" by simp
  have d: "\<not> cube ?B" by (simp add: defaults_def)
  have w1: "load example_env ?A ''runs''
              = call (CallReadCubeFile ''runs'' (scaling_type ?A))
                     (read_cube_file example_env ''runs'' (scaling_type ?A))"
    using scaling_forwarded_to_cube_reader_only
      [where args = ?A and env = example_env and p = "''runs''" and s = "''strong''"
         and st = ?st and st' = ?st] b c
    by blast
  have w2: "run_batch example_env (?B\<lparr>scaling_type := ''strong''\<rparr>) = run_batch example_env ?B"
    using scaling_forwarded_to_cube_reader_only
      [where args = ?B and env = example_env and p = "''in.txt''" and s = "''strong''"
         and st = ?st and st' = ?st] d
    by blast
  have e: "call (CallReadCubeFile ''runs'' (scaling_type ?A))
                (read_cube_file example_env ''runs'' (scaling_type ?A))
             = ([CallReadCubeFile ''runs'' ''strong''], Inr 10)"
    by (simp add: call_def example_env_def)
  show ?thesis by (rule conjI [OF trans [OF w1 e] w2])
qed

subsection \<open>Attributes under the option loops\<close>

lemma getattr_setattr_other:
  "setattr obj a v = Inr obj' \<Longrightarrow> n \<noteq> a \<Longrightarrow> getattr obj' n = getattr obj n"
  by (cases obj) (auto simp: update_conv')

lemma getattr_setattr_same:
  "setattr obj a v = Inr obj' \<Longrightarrow> getattr obj' a = Inr v"
  by (cases obj) (auto simp: update_conv')

lemma class_of_setattr:
  "setattr obj a v = Inr obj' \<Longrightarrow> class_of obj' = class_of obj"
  by (cases obj) auto

lemma setattr_object:
  "class_of obj = Some cls \<Longrightarrow> \<exists>obj'. setattr obj a v = Inr obj'"
  by (cases obj) auto

lemma and_then_result:
  assumes "and_then m f = (tr, Inr b)"
  shows "\<exists>tr1 a tr2. m = (tr1, Inr a) \<and> f a = (tr2, Inr b) \<and> tr = tr1 @ tr2"
proof (cases m)
  case (Pair tr1 r)
  show ?thesis
  proof (cases r)
    case (Inl s)
    then show ?thesis using assms Pair by (simp add: and_then_def)
  next
    case (Inr a)
    obtain tr2 r2 where f: "f a = (tr2, r2)" by (cases "f a")
    then show ?thesis using assms Pair Inr by (simp add: and_then_def)
  qed
qed

lemma apply_options_frame:
  assumes "\<forall>v. (n, v) \<in> set kvs \<longrightarrow> v = VNone"
    and "apply_options t obj kvs = (tr, Inr obj')"
  shows "getattr obj' n = getattr obj n"
  using assms
proof (induction kvs arbitrary: obj tr)
  case Nil
  then show ?case by simp
next
  case (Cons kv kvs)
  obtain name v where kv: "kv = (name, v)" by (cases kv)
  have rest: "\<forall>v. (n, v) \<in> set kvs \<longrightarrow> v = VNone" using Cons.prems(1) by simp
  show ?case
  proof (cases "v = VNone")
    case True
    then have "apply_options t obj kvs = (tr, Inr obj')" using Cons.prems(2) kv by simp
    then show ?thesis using Cons.IH [OF rest] by simp
  next
    case False
    then have ne: "n \<noteq> name" using Cons.prems(1) kv by auto
    show ?thesis
    proof (cases "setattr obj name v")
      case (Inl e)
      then show ?thesis using Cons.prems(2) kv False by simp
    next
      case (Inr obj1)
      obtain tr1 r1 where a: "apply_options t obj1 kvs = (tr1, r1)"
        by (cases "apply_options t obj1 kvs")
      then have "r1 = Inr obj'" using Cons.prems(2) kv False Inr by simp
      then have "getattr obj' n = getattr obj1 n" using Cons.IH [OF rest] a by simp
      then show ?thesis using getattr_setattr_other [OF Inr ne] by simp
    qed
  qed
qed

lemma apply_options_object:
  assumes "class_of obj = Some cls"
  shows "\<exists>tr obj'. apply_options t obj kvs = (tr, Inr obj') \<and> class_of obj' = Some cls"
  using assms
proof (induction kvs arbitrary: obj)
  case Nil
  then show ?case by simp
next
  case (Cons kv kvs)
  obtain name v where kv: "kv = (name, v)" by (cases kv)
  show ?case
  proof (cases "v = VNone")
    case True
    then show ?thesis using Cons kv by simp
  next
    case False
    obtain obj1 where s: "setattr obj name v = Inr obj1"
      using setattr_object [OF Cons.prems] by blast
    have "class_of obj1 = Some cls" using class_of_setattr [OF s] Cons.prems by simp
    then obtain tr1 obj' where "apply_options t obj1 kvs = (tr1, Inr obj')" "class_of obj' = Some cls"
      using Cons.IH by blast
    then show ?thesis using kv False s by simp
  qed
qed

lemma apply_options_sets:
  assumes "distinct (map fst kvs)" and "(n, v) \<in> set kvs" and "v \<noteq> VNone"
    and "apply_options t obj kvs = (tr, Inr obj')"
  shows "getattr obj' n = Inr v"
  using assms
proof (induction kvs arbitrary: obj tr)
  case Nil
  then show ?case by simp
next
  case (Cons kv kvs)
  obtain name w where kv: "kv = (name, w)" by (cases kv)
  have d: "distinct (map fst kvs)" and fresh: "name \<notin> fst ` set kvs"
    using Cons.prems(1) kv by simp_all
  show ?case
  proof (cases "(n, v) = (name, w)")
    case True
    then have nw: "name = n" "w = v" by simp_all
    obtain obj1 where s: "setattr obj n v = Inr obj1"
      using Cons.prems(4) kv nw Cons.prems(3) by (cases "setattr obj n v") simp_all
    obtain tr1 where a: "apply_options t obj1 kvs = (tr1, Inr obj')"
      using Cons.prems(4) kv nw Cons.prems(3) s
      by (cases "apply_options t obj1 kvs") simp
    have "\<forall>u. (n, u) \<in> set kvs \<longrightarrow> u = VNone"
      using fresh nw by force
    then have "getattr obj' n = getattr obj1 n" using apply_options_frame a by blast
    then show ?thesis using getattr_setattr_same [OF s] by simp
  next
    case False
    then have mem: "(n, v) \<in> set kvs" using Cons.prems(2) kv by auto
    show ?thesis
    proof (cases "w = VNone")
      case True
      then have "apply_options t obj kvs = (tr, Inr obj')" using Cons.prems(4) kv by simp
      then show ?thesis using Cons.IH [OF d mem Cons.prems(3)] by simp
    next
      case wn: False
      obtain obj1 where s: "setattr obj name w = Inr obj1"
        using Cons.prems(4) kv wn by (cases "setattr obj name w") simp_all
      obtain tr1 where a: "apply_options t obj1 kvs = (tr1, Inr obj')"
        using Cons.prems(4) kv wn s by (cases "apply_options t obj1 kvs") simp
      show ?thesis using Cons.IH [OF d mem Cons.prems(3) a] .
    qed
  qed
qed

lemma set_single_parameter_modeler_frame:
  assumes "set_single_parameter_modeler env m opts = (tr, Inr m1)" and "n \<noteq> ''single_parameter_modeler''"
  shows "getattr m1 n = getattr m n \<and> class_of m1 = class_of m"
proof (cases "map_of opts (SINGLE_PARAMETER_MODELER_KEY env)")
  case None
  then show ?thesis using assms(1) by (simp add: set_single_parameter_modeler_def raise_def)
next
  case (Some sm)
  show ?thesis
  proof (cases "sm = VNone")
    case True
    then show ?thesis using assms(1) Some by (simp add: set_single_parameter_modeler_def)
  next
    case False
    show ?thesis
    proof (cases "new_single_parameter_modeler env sm")
      case (Inl e)
      then show ?thesis using assms(1) Some False by (simp add: set_single_parameter_modeler_def raise_def)
    next
      case (Inr inst)
      then have "setattr m ''single_parameter_modeler'' inst = Inr m1"
        using assms(1) Some False
        by (cases "setattr m ''single_parameter_modeler'' inst")
           (simp_all add: set_single_parameter_modeler_def call_def)
      then show ?thesis using getattr_setattr_other [OF _ assms(2)] class_of_setattr by blast
    qed
  qed
qed

lemma apply_single_parameter_options_frame:
  assumes "apply_single_parameter_options env m opts = (tr, Inr m1)" and "n \<noteq> ''single_parameter_modeler''"
  shows "getattr m1 n = getattr m n \<and> class_of m1 = class_of m"
proof (cases "getattr m ''single_parameter_modeler''")
  case (Inl e)
  then show ?thesis using assms(1) by (simp add: apply_single_parameter_options_def raise_def)
next
  case (Inr sub)
  show ?thesis
  proof (cases "sub = VNone")
    case True
    then show ?thesis using assms(1) Inr by (simp add: apply_single_parameter_options_def)
  next
    case False
    show ?thesis
    proof (cases "map_of opts (SINGLE_PARAMETER_OPTIONS_KEY env)")
      case None
      then show ?thesis using assms(1) Inr False by (simp add: apply_single_parameter_options_def raise_def)
    next
      case (Some d)
      show ?thesis
      proof (cases d)
        case (VDict nested)
        let ?f = "\<lambda>sub'. case setattr m ''single_parameter_modeler'' sub' of
                               Inl e \<Rightarrow> raise e
                             | Inr m' \<Rightarrow> ([], Inr m')"
        have "and_then (apply_options OnSingleParameterModeler sub nested) ?f = (tr, Inr m1)"
          using assms(1) Inr False Some VDict by (simp add: apply_single_parameter_options_def)
        from and_then_result [OF this] obtain sub' tr2 where "?f sub' = (tr2, Inr m1)" by blast
        then have "setattr m ''single_parameter_modeler'' sub' = Inr m1"
          by (cases "setattr m ''single_parameter_modeler'' sub'") (simp_all add: raise_def)
        then show ?thesis using getattr_setattr_other [OF _ assms(2)] class_of_setattr by blast
      qed (use assms(1) Inr False Some in \<open>simp_all add: apply_single_parameter_options_def raise_def\<close>)
    qed
  qed
qed

lemma configure_result:
  assumes "configure env m opts = (tr, Inr m')"
  shows "\<exists>tr1 m2 tr2.
           (if is_multi_parameter env m \<and> opts \<noteq> []
            then and_then (set_single_parameter_modeler env m opts)
                          (\<lambda>m1. apply_single_parameter_options env m1 opts)
            else ([], Inr m)) = (tr1, Inr m2)
           \<and> apply_options OnModeler m2 opts = (tr2, Inr m') \<and> tr = tr1 @ tr2"
  using and_then_result [OF assms [unfolded configure_def]] .

lemma configure_frame:
  assumes "configure env m opts = (tr, Inr m')"
    and "\<forall>v. (n, v) \<in> set opts \<longrightarrow> v = VNone"
    and "n \<noteq> ''single_parameter_modeler''"
  shows "getattr m' n = getattr m n"
proof -
  from configure_result [OF assms(1)] obtain tr1 m2 tr2 where
    first: "(if is_multi_parameter env m \<and> opts \<noteq> []
            then and_then (set_single_parameter_modeler env m opts)
                          (\<lambda>m1. apply_single_parameter_options env m1 opts)
            else ([], Inr m)) = (tr1, Inr m2)"
    and top: "apply_options OnModeler m2 opts = (tr2, Inr m')" by blast
  have "getattr m2 n = getattr m n"
  proof (cases "is_multi_parameter env m \<and> opts \<noteq> []")
    case True
    then have "and_then (set_single_parameter_modeler env m opts)
                          (\<lambda>m1. apply_single_parameter_options env m1 opts) = (tr1, Inr m2)"
      using first by simp
    from and_then_result [OF this] obtain ta m1 tb where
      "set_single_parameter_modeler env m opts = (ta, Inr m1)"
      "apply_single_parameter_options env m1 opts = (tb, Inr m2)" by blast
    then show ?thesis
      using set_single_parameter_modeler_frame [OF _ assms(3)]
        apply_single_parameter_options_frame [OF _ assms(3)] by metis
  next
    case False
    then show ?thesis using first by auto
  qed
  then show ?thesis using apply_options_frame [OF assms(2) top] by simp
qed

lemma example_configure:
  "configure example_env example_modeler example_options =
     ([AssignSingleParameterModeler (VObj ''Basic'' [(''allow_log_terms'', VBool True)]),
       SetAttr OnSingleParameterModeler ''poly_exponents'' (VStr ''0,1,2''),
       SetAttr OnModeler ''#single_parameter_modeler'' (VStr ''Basic''),
       SetAttr OnModeler ''#single_parameter_options''
         (VDict [(''allow_log_terms'', VNone), (''poly_exponents'', VStr ''0,1,2'')])],
      Inr example_configured)"
  by (simp add: configure_def and_then_def set_single_parameter_modeler_def
        apply_single_parameter_options_def raise_def call_def example_env_def
        example_modeler_def example_options_def example_configured_def)

lemma run_models_trace:
  assumes "generator_modeler env ex (modeler args) (median args) = Inr m"
    and "configure env m (modeler_options args) = (tr, Inr m')"
  shows "\<exists>rest. fst (run_models env args ex)
           = NewModelGenerator (modeler args) (median args) # tr @ ModelAll m' # rest"
  by (simp add: run_models_def fst_and_then call_def assms)

subsection \<open>Claims about the modeler options\<close>

text \<open>
  C10. An option whose parsed value is \<^verbatim>\<open>None\<close> is skipped, at top level and in the
  nested dictionary. Every \<^verbatim>\<open>setattr\<close> that the configuration performs carries a value
  other than \<^verbatim>\<open>None\<close> and comes from an entry of the dictionary it iterates (the parsed
  options for the modeler, the nested options for its single-parameter modeler). So an
  attribute whose entries in the parsed options all have the value \<^verbatim>\<open>None\<close> keeps its
  value across the configuration (\<^verbatim>\<open>single_parameter_modeler\<close> apart, which line 155
  and the nested loop may replace), and each loop on its own leaves such an attribute of
  its target as it was.
\<close>

theorem none_valued_options_are_skipped:
  "(\<forall>t n v. SetAttr t n v \<in> set (fst (configure env m opts)) \<longrightarrow>
       v \<noteq> VNone
       \<and> (t = OnModeler \<longrightarrow> (n, v) \<in> set opts)
       \<and> (t = OnSingleParameterModeler \<longrightarrow>
            (\<exists>nested. map_of opts (SINGLE_PARAMETER_OPTIONS_KEY env) = Some (VDict nested)
                       \<and> (n, v) \<in> set nested)))
   \<and> ((\<forall>v. (a, v) \<in> set opts \<longrightarrow> v = VNone) \<longrightarrow> a \<noteq> ''single_parameter_modeler'' \<longrightarrow>
        configure env m opts = (tr, Inr m') \<longrightarrow> getattr m' a = getattr m a)
   \<and> ((\<forall>v. (a, v) \<in> set kvs \<longrightarrow> v = VNone) \<longrightarrow>
        apply_options tgt obj kvs = (tr', Inr obj') \<longrightarrow> getattr obj' a = getattr obj a)"
proof -
  have 1: "\<forall>t n v. SetAttr t n v \<in> set (fst (configure env m opts)) \<longrightarrow>
       v \<noteq> VNone
       \<and> (t = OnModeler \<longrightarrow> (n, v) \<in> set opts)
       \<and> (t = OnSingleParameterModeler \<longrightarrow>
            (\<exists>nested. map_of opts (SINGLE_PARAMETER_OPTIONS_KEY env) = Some (VDict nested)
                       \<and> (n, v) \<in> set nested))"
  proof (intro allI impI)
    fix t n v
    assume "SetAttr t n v \<in> set (fst (configure env m opts))"
    from configure_events [OF this]
    show "v \<noteq> VNone
       \<and> (t = OnModeler \<longrightarrow> (n, v) \<in> set opts)
       \<and> (t = OnSingleParameterModeler \<longrightarrow>
            (\<exists>nested. map_of opts (SINGLE_PARAMETER_OPTIONS_KEY env) = Some (VDict nested)
                       \<and> (n, v) \<in> set nested))"
      by auto
  qed
  have 2: "(\<forall>v. (a, v) \<in> set opts \<longrightarrow> v = VNone) \<longrightarrow> a \<noteq> ''single_parameter_modeler'' \<longrightarrow>
        configure env m opts = (tr, Inr m') \<longrightarrow> getattr m' a = getattr m a"
    using configure_frame by blast
  have 3: "(\<forall>v. (a, v) \<in> set kvs \<longrightarrow> v = VNone) \<longrightarrow>
        apply_options tgt obj kvs = (tr', Inr obj') \<longrightarrow> getattr obj' a = getattr obj a"
    using apply_options_frame by blast
  show ?thesis using 1 2 3 by (intro conjI)
qed

theorem none_valued_options_are_skipped_witness:
  "getattr example_configured ''use_median'' = getattr example_modeler ''use_median''
   \<and> getattr example_configured ''use_median'' = Inr (VBool False)"
proof -
  have h: "\<forall>v. (''use_median'', v) \<in> set example_options \<longrightarrow> v = VNone"
    by (simp add: example_options_def)
  have n: "''use_median'' \<noteq> ''single_parameter_modeler''" by simp
  have "getattr example_configured ''use_median'' = getattr example_modeler ''use_median''"
    using none_valued_options_are_skipped
      [where env = example_env and m = example_modeler and opts = example_options
         and a = "''use_median''" and tr = "fst (configure example_env example_modeler example_options)"
         and m' = example_configured and kvs = "[]" and tgt = OnModeler and obj = VNone
         and tr' = "[]" and obj' = VNone]
      h n example_configure
    by simp
  then show ?thesis by (simp add: example_modeler_def)
qed

text \<open>
  C7. For a multi-parameter modeler and a non-empty options dictionary whose reserved key
  \<^verbatim>\<open>SINGLE_PARAMETER_MODELER_KEY\<close> names a registered single-parameter modeler and whose
  reserved key \<^verbatim>\<open>SINGLE_PARAMETER_OPTIONS_KEY\<close> holds the nested options: the
  configuration succeeds; afterwards the attribute \<^verbatim>\<open>single_parameter_modeler\<close> holds an
  instance of the class that the registry creates for that name, namely the fresh
  instance with the nested options applied (every nested option with a value other than
  \<^verbatim>\<open>None\<close> is then an attribute of it); and \<^verbatim>\<open>model_all\<close> is called after these
  assignments, on the modeler so configured. The two reserved keys are constants of a
  module outside the sources; the statement supposes that no entry of the dictionary is
  named \<^verbatim>\<open>single_parameter_modeler\<close> with a value other than \<^verbatim>\<open>None\<close>, since the loop
  of line 162 would assign that value over the instance.
\<close>

theorem nested_strategy_configured:
  assumes "is_multi_parameter env m" and "opts \<noteq> []" and "class_of m = Some cls"
    and "map_of opts (SINGLE_PARAMETER_MODELER_KEY env) = Some (VStr name)"
    and "all_modelers env name = Some inst" and "class_of inst = Some icls"
    and "map_of opts (SINGLE_PARAMETER_OPTIONS_KEY env) = Some (VDict nested)"
    and "\<forall>v. (''single_parameter_modeler'', v) \<in> set opts \<longrightarrow> v = VNone"
  shows "\<exists>tr m' sub tr_n.
           configure env m opts = (tr, Inr m')
         \<and> getattr m' ''single_parameter_modeler'' = Inr sub
         \<and> class_of sub = Some icls
         \<and> apply_options OnSingleParameterModeler inst nested = (tr_n, Inr sub)
         \<and> (distinct (map fst nested) \<longrightarrow>
              (\<forall>n v. (n, v) \<in> set nested \<longrightarrow> v \<noteq> VNone \<longrightarrow> getattr sub n = Inr v))
         \<and> (\<forall>args ex. modeler_options args = opts \<longrightarrow>
                generator_modeler env ex (modeler args) (median args) = Inr m \<longrightarrow>
                (\<exists>rest. fst (run_models env args ex)
                   = NewModelGenerator (modeler args) (median args) # tr @ ModelAll m' # rest))"
proof -
  obtain m1 where s1: "setattr m ''single_parameter_modeler'' inst = Inr m1"
    using setattr_object [OF assms(3)] by blast
  have c1: "class_of m1 = Some cls" using class_of_setattr [OF s1] assms(3) by simp
  have g1: "getattr m1 ''single_parameter_modeler'' = Inr inst" using getattr_setattr_same [OF s1] .
  have first: "set_single_parameter_modeler env m opts = ([AssignSingleParameterModeler inst], Inr m1)"
    using assms(4,5) s1 by (simp add: set_single_parameter_modeler_def call_def)
  have inst_not_none: "inst \<noteq> VNone" using assms(6) by auto
  obtain tr_n sub where n1: "apply_options OnSingleParameterModeler inst nested = (tr_n, Inr sub)"
    and cs: "class_of sub = Some icls"
    using apply_options_object [OF assms(6)] by blast
  obtain m2 where s2: "setattr m1 ''single_parameter_modeler'' sub = Inr m2"
    using setattr_object [OF c1] by blast
  have c2: "class_of m2 = Some cls" using class_of_setattr [OF s2] c1 by simp
  have g2: "getattr m2 ''single_parameter_modeler'' = Inr sub" using getattr_setattr_same [OF s2] .
  have second: "apply_single_parameter_options env m1 opts = (tr_n, Inr m2)"
    using g1 inst_not_none assms(7) n1 s2
    by (simp add: apply_single_parameter_options_def and_then_def)
  obtain tr_t m' where t1: "apply_options OnModeler m2 opts = (tr_t, Inr m')"
    using apply_options_object [OF c2] by blast
  have g3: "getattr m' ''single_parameter_modeler'' = Inr sub"
    using apply_options_frame [OF assms(8) t1] g2 by simp
  have conf: "configure env m opts = (AssignSingleParameterModeler inst # tr_n @ tr_t, Inr m')"
    using assms(1,2) first second t1 by (simp add: configure_def and_then_def)
  have nested_set: "distinct (map fst nested) \<longrightarrow>
              (\<forall>n v. (n, v) \<in> set nested \<longrightarrow> v \<noteq> VNone \<longrightarrow> getattr sub n = Inr v)"
    using apply_options_sets [OF _ _ _ n1] by blast
  have before: "\<forall>args ex. modeler_options args = opts \<longrightarrow>
                generator_modeler env ex (modeler args) (median args) = Inr m \<longrightarrow>
                (\<exists>rest. fst (run_models env args ex)
                   = NewModelGenerator (modeler args) (median args)
                       # (AssignSingleParameterModeler inst # tr_n @ tr_t) @ ModelAll m' # rest)"
  proof (intro allI impI)
    fix args :: arguments and ex
    assume o: "modeler_options args = opts"
      and g: "generator_modeler env ex (modeler args) (median args) = Inr m"
    from conf o have c': "configure env m (modeler_options args)
        = (AssignSingleParameterModeler inst # tr_n @ tr_t, Inr m')" by simp
    from run_models_trace [OF g c']
    show "\<exists>rest. fst (run_models env args ex)
                   = NewModelGenerator (modeler args) (median args)
                       # (AssignSingleParameterModeler inst # tr_n @ tr_t) @ ModelAll m' # rest" .
  qed
  show ?thesis
    by (intro exI [of _ "AssignSingleParameterModeler inst # tr_n @ tr_t"] exI [of _ m']
          exI [of _ sub] exI [of _ tr_n] conjI conf g3 cs n1 nested_set before)
qed

theorem nested_strategy_configured_witness:
  "getattr example_configured ''single_parameter_modeler''
     = Inr (VObj ''Basic'' [(''allow_log_terms'', VBool True), (''poly_exponents'', VStr ''0,1,2'')])
   \<and> (\<exists>tr m' sub. configure example_env example_modeler example_options = (tr, Inr m')
          \<and> getattr m' ''single_parameter_modeler'' = Inr sub \<and> class_of sub = Some ''Basic'')"
proof -
  have a1: "is_multi_parameter example_env example_modeler"
    by (simp add: example_env_def example_modeler_def)
  have a2: "example_options \<noteq> []" by (simp add: example_options_def)
  have a3: "class_of example_modeler = Some ''MultiParameterModeler''" by (simp add: example_modeler_def)
  have a4: "map_of example_options (SINGLE_PARAMETER_MODELER_KEY example_env) = Some (VStr ''Basic'')"
    by (simp add: example_options_def example_env_def)
  have a5: "all_modelers example_env ''Basic'' = Some (VObj ''Basic'' [(''allow_log_terms'', VBool True)])"
    by (simp add: example_env_def)
  have a6: "class_of (VObj ''Basic'' [(''allow_log_terms'', VBool True)]) = Some ''Basic''" by simp
  have a7: "map_of example_options (SINGLE_PARAMETER_OPTIONS_KEY example_env)
              = Some (VDict [(''allow_log_terms'', VNone), (''poly_exponents'', VStr ''0,1,2'')])"
    by (simp add: example_options_def example_env_def)
  have a8: "\<forall>v. (''single_parameter_modeler'', v) \<in> set example_options \<longrightarrow> v = VNone"
    by (simp add: example_options_def)
  have "\<exists>tr m' sub. configure example_env example_modeler example_options = (tr, Inr m')
          \<and> getattr m' ''single_parameter_modeler'' = Inr sub \<and> class_of sub = Some ''Basic''"
    using nested_strategy_configured [OF a1 a2 a3 a4 a5 a6 a7 a8] by blast
  moreover have "getattr example_configured ''single_parameter_modeler''
     = Inr (VObj ''Basic'' [(''allow_log_terms'', VBool True), (''poly_exponents'', VStr ''0,1,2'')])"
    by (simp add: example_configured_def)
  ultimately show ?thesis by blast
qed







end
